theory Spec2Isabelle
  imports Complex_Main "HOL-Library.AList"
begin

section \<open>JavaScript values\<close>

text \<open>
  The client is TypeScript; at run time its data are JavaScript values. A value is a
  primitive or an object; an object has an internal kind (plain, array, \<open>Date\<close>,
  \<open>Error\<close>, a notification instance) and its own named properties, kept in
  insertion order. Numbers are exact rationals, with \<open>NaN\<close> apart. A string is the
  list of the bytes of its UTF-8 encoding.

  A notification is the object the payload collaborator hands over
  (\<open>lib/notifications/notification\<close>): the values its accessors \<open>deviceToken\<close>,
  \<open>pushType\<close>, \<open>priority\<close>, \<open>topic\<close>, \<open>expiration\<close>, \<open>collapseId\<close> and its method
  \<open>APNSOptions()\<close> yield.
\<close>

datatype jsval =
    JUndefined
  | JNull
  | JBool bool
  | JNum rat
  | JNaN
  | JStr string
  | JObj objkind "(string \<times> jsval) list"
and objkind =
    Plain
  | Array "jsval list"
  | Date "int option"
  | Error string
  | TypeError
  | NotificationObj notification
and notification =
  Notification (deviceToken: string) (pushType: jsval) (priority: jsval) (topic: jsval)
    (expiration: jsval) (collapseId: jsval) (APNSOptions: jsval)

text \<open>\<open>Date None\<close> is an invalid date; \<open>Error m\<close> is \<open>new Error(m)\<close>; \<open>TypeError\<close> is
  the error the engine itself raises (its message is the engine's).\<close>

text \<open>Truthiness, as \<open>if (v)\<close>, \<open>!v\<close> and \<open>a || b\<close> test it.\<close>

fun truthy :: "jsval \<Rightarrow> bool" where
  "truthy JUndefined = False"
| "truthy JNull = False"
| "truthy (JBool b) = b"
| "truthy (JNum q) = (q \<noteq> 0)"
| "truthy JNaN = False"
| "truthy (JStr s) = (s \<noteq> [])"
| "truthy (JObj k ps) = True"

definition js_or :: "jsval \<Rightarrow> jsval \<Rightarrow> jsval" where
  "js_or a b = (if truthy a then a else b)"

text \<open>\<open>v instanceof Date\<close> and \<open>Array.isArray(v)\<close>.\<close>

fun instanceof_Date :: "jsval \<Rightarrow> bool" where
  "instanceof_Date (JObj (Date t) ps) = True"
| "instanceof_Date v = False"

fun isArray :: "jsval \<Rightarrow> bool" where
  "isArray (JObj (Array xs) ps) = True"
| "isArray v = False"

text \<open>\<open>d.getTime() / 1000\<close> for a \<open>Date\<close>: the time value is a whole number of
  milliseconds, or \<open>NaN\<close> for an invalid date; the division is the division of numbers.\<close>

fun getTime_div_1000 :: "jsval \<Rightarrow> jsval" where
  "getTime_div_1000 (JObj (Date (Some ms)) ps) = JNum (of_int ms / 1000)"
| "getTime_div_1000 v = JNaN"

text \<open>\<open>a[0]\<close> on an array.\<close>

fun index0 :: "jsval \<Rightarrow> jsval" where
  "index0 (JObj (Array (x # xs)) ps) = x"
| "index0 v = JUndefined"

text \<open>
  Reading and writing a named property. Reading a name an object does not own gives
  \<open>undefined\<close>. Writing to \<open>null\<close>, \<open>undefined\<close> or (module code is strict) to a
  primitive raises a \<open>TypeError\<close>: the result is \<open>None\<close> then. The names read and
  written by the client (\<open>reason\<close>, \<open>statusCode\<close>, \<open>notification\<close>) are no array index
  and not \<open>length\<close>, so on an array too they are ordinary named properties.
\<close>

fun get_prop :: "jsval \<Rightarrow> string \<Rightarrow> jsval" where
  "get_prop (JObj k ps) name = (case map_of ps name of None \<Rightarrow> JUndefined | Some v \<Rightarrow> v)"
| "get_prop v name = JUndefined"

fun set_prop :: "jsval \<Rightarrow> string \<Rightarrow> jsval \<Rightarrow> jsval option" where
  "set_prop (JObj k ps) name v = Some (JObj k (AList.update name v ps))"
| "set_prop j name v = None"

text \<open>Headers are an object used as a dictionary: an association list.\<close>

type_synonym header_obj = "(string \<times> jsval) list"

definition header :: "header_obj \<Rightarrow> string \<Rightarrow> jsval" where
  "header hs name = (case map_of hs name of None \<Rightarrow> JUndefined | Some v \<Rightarrow> v)"

text \<open>\<open>encodeURIComponent\<close>: every byte outside the unreserved set becomes \<open>%XX\<close>,
  in upper-case hexadecimal.\<close>

definition unreserved :: "char \<Rightarrow> bool" where
  "unreserved c \<longleftrightarrow>
     c \<in> set ''ABCDEFGHIJKLMNOPQRSTUVWXYZabcdefghijklmnopqrstuvwxyz0123456789-_.!~*()''
     \<or> c = CHR 0x27"

definition hex_digit :: "nat \<Rightarrow> char" where
  "hex_digit n = ''0123456789ABCDEF'' ! (n mod 16)"

definition encodeURIComponent :: "string \<Rightarrow> string" where
  "encodeURIComponent s =
     concat (map (\<lambda>c. if unreserved c then [c]
                      else [CHR ''%'', hex_digit (of_char c div 16), hex_digit (of_char c mod 16)]) s)"

text \<open>A template literal prints \<open>null\<close> for an absent token.\<close>

fun token_text :: "string option \<Rightarrow> string" where
  "token_text None = ''null''"
| "token_text (Some t) = t"

text \<open>An \<open>async\<close> function settles by returning a value or by throwing one.\<close>

datatype 'a completion = Returned 'a | Threw jsval

section \<open>Constants\<close>

definition API_VERSION :: string where "API_VERSION = ''3''"
definition SIGNING_ALGORITHM :: string where "SIGNING_ALGORITHM = ''ES256''"
definition HTTP2_HEADER_METHOD :: string where "HTTP2_HEADER_METHOD = '':method''"
definition HTTP2_HEADER_PATH :: string where "HTTP2_HEADER_PATH = '':path''"
definition HTTP2_HEADER_STATUS :: string where "HTTP2_HEADER_STATUS = '':status''"

text \<open>
  Modelled from the spec: the catalogue of reason constants \<open>Errors\<close> (\<open>lib/errors\<close>,
  imported by \<open>apns.ts\<close>) is not among the sources. The four entries the client uses
  are the generic error event, the expired-credential reason (named
  \<open>ExpiredProviderToken\<close> in the scenarios), the invalid-signing-key condition and the
  unknown-error sentinel; each is taken to be the string named after its key.
\<close>

definition Errors_error :: string where "Errors_error = ''error''"
definition Errors_expiredProviderToken :: string where
  "Errors_expiredProviderToken = ''ExpiredProviderToken''"
definition Errors_invalidSigningKey :: string where
  "Errors_invalidSigningKey = ''InvalidSigningKey''"
definition Errors_unknownError :: string where "Errors_unknownError = ''UnknownError''"

section \<open>Platform and collaborators\<close>

text \<open>
  The token is signed by \<open>jsonwebtoken\<close>, the error body is read by \<open>JSON.parse\<close>, the
  payload is written by \<open>JSON.stringify\<close>. The client only calls them, so they are
  parameters: \<open>jwt_sign\<close> and \<open>JSON_parse\<close> give \<open>None\<close> where they throw (both calls
  sit in a \<open>try\<close> that drops the exception), \<open>JSON_stringify\<close> gives \<open>Inl\<close> of what it
  throws.
\<close>

record claims =
  iss :: string
  iat :: rat

record sign_header =
  alg :: string
  kid :: string

record sign_options =
  algorithm :: string
  header_opt :: sign_header

record platform =
  jwt_sign :: "claims \<Rightarrow> string \<Rightarrow> sign_options \<Rightarrow> string option"
  JSON_parse :: "string \<Rightarrow> jsval option"
  JSON_stringify :: "jsval \<Rightarrow> jsval + jsval"

section \<open>The client's state\<close>

text \<open>
  A transport session object (\<open>HTTP2Client\<close>): its private fields \<open>_url\<close>, \<open>_timeout\<close>,
  \<open>_ready\<close> and \<open>_session\<close> are \<open>url\<close>, \<open>timeout\<close>, \<open>ready_flag\<close> and \<open>session\<close>.
  The connection handle is the identity of a session of the \<open>http2\<close> library, or
  absent. The URL object is kept as the text it was built from.
\<close>

record http2client =
  url :: string
  timeout :: nat
  ready_flag :: bool
  session :: "nat option"

text \<open>
  What the client does to the outside is recorded, in order, in a trace: signing a
  token, emitting an event (with the arguments passed to the listeners), asking the pool
  for a session, giving one back, opening a request stream on a connection, writing a
  body to the stream, ending the stream.
\<close>

datatype effect =
    JwtSign claims string sign_options
  | Emitted jsval "jsval list"
  | PoolAcquire
  | PoolRelease http2client
  | SessionRequest nat header_obj
  | StreamWrite jsval
  | StreamEnd

text \<open>
  The \<open>APNS\<close> object: \<open>_token\<close>, \<open>_team\<close>, \<open>_keyId\<close>, \<open>_signingKey\<close> and \<open>_defaultTopic\<close>,
  together with the clock \<open>Date.now()\<close> reads (milliseconds) and the trace. The pool
  \<open>_clients\<close> belongs to the \<open>tarn\<close> library and appears through the trace and through
  what \<open>acquire\<close> answers.
\<close>

record apns =
  token :: "string option"
  team :: string
  keyId :: string
  signingKey :: string
  defaultTopic :: jsval
  now :: int
  trace :: "effect list"

definition record_effect :: "effect \<Rightarrow> apns \<Rightarrow> apns" where
  "record_effect x s = s\<lparr>trace := trace s @ [x]\<rparr>"

section \<open>Token manager and events\<close>

text \<open>
  The constructor registers one listener of the client's own:
  \<^verbatim>\<open>this.on(Errors.expiredProviderToken, () => this._resetSigningToken())\<close>.
  \<open>emit\<close> records the event and runs that listener, synchronously, when the event is
  the one it listens to. Listeners registered by callers are outside the model: \<open>emit\<close>
  delivers and returns (the platform's emitter throws on an \<open>error\<close> event nobody
  listens to; a caller's listener for it is taken to be there). An event name is
  compared as a string: a name that is not a string reaches no listener.

  \<^verbatim>\<open>
  _getSigningToken() {
    if (this._token) { return this._token; }
    let claims = { iss: this._team, iat: Date.now() / 1000 };
    let key = this._signingKey;
    let options = { algorithm: SIGNING_ALGORITHM,
                    header: { alg: SIGNING_ALGORITHM, kid: this._keyId } };
    let token;
    try { token = jwt.sign(claims, key, options); }
    catch (err) { token = null; this.emit(Errors.invalidSigningKey); }
    this._token = token;
    return token;
  }
  _resetSigningToken() { this._token = null; return this._getSigningToken(); }
  \<close>
  \<open>if (this._token)\<close> is a truthiness test: \<open>null\<close> and the empty string fail it.
\<close>

fun token_cached :: "string option \<Rightarrow> bool" where
  "token_cached None = False"
| "token_cached (Some t) = (t \<noteq> [])"

definition token_claims :: "apns \<Rightarrow> claims" where
  "token_claims s = \<lparr>iss = team s, iat = of_int (now s) / 1000\<rparr>"

definition token_options :: "apns \<Rightarrow> sign_options" where
  "token_options s =
     \<lparr>algorithm = SIGNING_ALGORITHM, header_opt = \<lparr>alg = SIGNING_ALGORITHM, kid = keyId s\<rparr>\<rparr>"

function emit :: "platform \<Rightarrow> jsval \<Rightarrow> jsval list \<Rightarrow> apns \<Rightarrow> apns"
  and getSigningToken :: "platform \<Rightarrow> apns \<Rightarrow> string option \<times> apns"
  and resetSigningToken :: "platform \<Rightarrow> apns \<Rightarrow> string option \<times> apns"
where
  "emit P ev args s =
     (if ev = JStr Errors_expiredProviderToken
      then snd (resetSigningToken P (record_effect (Emitted ev args) s))
      else record_effect (Emitted ev args) s)"
| "getSigningToken P s =
     (if token_cached (token s) then (token s, s)
      else (case jwt_sign P (token_claims s) (signingKey s) (token_options s) of
              Some t \<Rightarrow>
                (Some t,
                 (record_effect (JwtSign (token_claims s) (signingKey s) (token_options s)) s)
                   \<lparr>token := Some t\<rparr>)
            | None \<Rightarrow>
                (None,
                 (emit P (JStr Errors_invalidSigningKey) []
                    (record_effect (JwtSign (token_claims s) (signingKey s) (token_options s)) s))
                   \<lparr>token := None\<rparr>)))"
| "resetSigningToken P s = getSigningToken P (s\<lparr>token := None\<rparr>)"
  by pat_completeness auto
termination
  by (relation "measure (\<lambda>x. case x of
          Inl (P, ev, args, s) \<Rightarrow> (if ev = JStr Errors_expiredProviderToken then 3 else 0)
        | Inr (Inl (P, s)) \<Rightarrow> 1
        | Inr (Inr (P, s)) \<Rightarrow> 2)")
     (auto simp: Errors_expiredProviderToken_def Errors_invalidSigningKey_def)

declare emit.simps [simp del] getSigningToken.simps [simp del] resetSigningToken.simps [simp del]

section \<open>Transport session (\<open>HTTP2Client\<close>)\<close>

text \<open>
  The sessions of the \<open>http2\<close> library are known by their identity. The library's side of
  the world is the set of sessions whose \<open>destroyed\<close> flag is set, and the set of sessions
  on which this client has registered its terminal-event handlers.
\<close>

record transport =
  client :: http2client
  destroyed :: "nat set"
  handlers :: "nat set"

text \<open>Decimal text of a port number, for the template \<^verbatim>\<open>`https://${host}:${port}`\<close>.\<close>

fun dec :: "nat \<Rightarrow> string" where
  "dec n = (if n < 10 then [''0123456789'' ! n]
            else dec (n div 10) @ [''0123456789'' ! (n mod 10)])"

declare dec.simps [simp del]

text \<open>
  \<^verbatim>\<open>
  constructor(host: string, port = 443, { timeout = 5000 } = {}) {
    if (!host) throw new Error('host is required');
    this._url = new URL(`https://${host}:${port}`);
    this._timeout = timeout;
    this._ready = false;
    this._session = undefined;
  }
  \<close>
  \<open>URL_valid\<close> says whether the platform's \<open>URL\<close> constructor accepts the text; it
  raises a \<open>TypeError\<close> otherwise.
\<close>

definition HTTP2Client_new ::
  "(string \<Rightarrow> bool) \<Rightarrow> string \<Rightarrow> nat \<Rightarrow> nat \<Rightarrow> jsval + http2client" where
  "HTTP2Client_new URL_valid host port tmo =
     (if host = [] then Inl (JObj (Error ''host is required'') [])
      else if \<not> URL_valid (''https://'' @ host @ '':'' @ dec port) then Inl (JObj TypeError [])
      else Inr \<lparr>url = ''https://'' @ host @ '':'' @ dec port, timeout = tmo,
                ready_flag = False, session = None\<rparr>)"

text \<open>
  \<^verbatim>\<open>get ready() { return this._ready && this._session && !this._session.destroyed; }\<close>
  The result is the value of the \<open>&&\<close> chain: \<open>false\<close>, \<open>undefined\<close> or a boolean.
\<close>

definition ready :: "transport \<Rightarrow> jsval" where
  "ready T =
     (if \<not> ready_flag (client T) then JBool False
      else case session (client T) of
             None \<Rightarrow> JUndefined
           | Some sid \<Rightarrow> JBool (sid \<notin> destroyed T))"

text \<open>
  \<^verbatim>\<open>
  destroy() {
    if (this._session && !this._session.destroyed) { this._session.destroy(); }
    this._ready = false;
    this._session = undefined;
  }
  \<close>
\<close>

definition destroy :: "transport \<Rightarrow> transport" where
  "destroy T =
     (let T1 = (case session (client T) of
                  None \<Rightarrow> T
                | Some sid \<Rightarrow>
                    if sid \<notin> destroyed T then T\<lparr>destroyed := insert sid (destroyed T)\<rparr>
                    else T)
      in T1\<lparr>client := (client T1)\<lparr>ready_flag := False, session := None\<rparr>\<rparr>)"

text \<open>
  \<^verbatim>\<open>
  _connected(session) {
    session.on('close', () => this.destroy());      // and frameError, goaway,
    ...                                             // socketError, timeout
    this._session = session;
    this._ready = true;
  }
  \<close>
\<close>

definition connected_session :: "nat \<Rightarrow> transport \<Rightarrow> transport" where
  "connected_session sid T =
     T\<lparr>handlers := insert sid (handlers T),
       client := (client T)\<lparr>session := Some sid, ready_flag := True\<rparr>\<rparr>"

text \<open>
  What can happen to a transport session after its construction: \<open>destroy()\<close> is
  called; \<open>connect()\<close> succeeds with a new session of the library, which calls
  \<open>_connected\<close>; \<open>connect()\<close> fails (the promise rejects, nothing is stored); a
  session of the library fires one of its terminal events, which runs the handlers
  registered on it; the library marks a session destroyed on its own; a request is made
  (it reads \<open>_session\<close> and writes no field).
\<close>

datatype transport_op =
    OpDestroy
  | OpConnectOk nat
  | OpConnectFails
  | OpTerminalEvent nat
  | OpSessionDies nat
  | OpRequest

fun transport_step :: "transport_op \<Rightarrow> transport \<Rightarrow> transport" where
  "transport_step OpDestroy T = destroy T"
| "transport_step (OpConnectOk sid) T = connected_session sid T"
| "transport_step OpConnectFails T = T"
| "transport_step (OpTerminalEvent sid) T = (if sid \<in> handlers T then destroy T else T)"
| "transport_step (OpSessionDies sid) T = T\<lparr>destroyed := insert sid (destroyed T)\<rparr>"
| "transport_step OpRequest T = T"

definition transport_run :: "transport_op list \<Rightarrow> transport \<Rightarrow> transport" where
  "transport_run ops T = fold transport_step ops T"

text \<open>
  \<open>HTTPClientOptions\<close> and \<open>ServerResponse\<close>. The field \<open>headers\<close> of the response is
  \<open>res_headers\<close> here; the field \<open>method\<close> of the options is \<open>http_method\<close>
  (\<open>method\<close> is a keyword of the prover). Both \<open>method\<close> and \<open>headers\<close> are optional.
\<close>

record client_options =
  http_method :: "string option"
  path :: string
  headers :: "header_obj option"

record server_response =
  statusCode :: jsval
  res_headers :: header_obj
  body :: string

text \<open>How a request stream ends: with response headers and data chunks, with an error
  of the stream, or with the stream's timeout.\<close>

datatype stream_outcome =
    Completed header_obj "string list"
  | StreamError jsval
  | StreamTimeout

text \<open>
  \<^verbatim>\<open>
  async request({ method, path, headers = {} }, body = null) {
    if (!method) throw new Error('method is required');
    if (!path) throw new Error('path is required');
    if (!this._session) throw new Error('Must call connect() before making a request');
    return new Promise((resolve, reject) => {
      headers[HTTP2_HEADER_METHOD] = method;
      headers[HTTP2_HEADER_PATH] = path;
      let req = this._session!.request(headers);
      req.setTimeout(this._timeout, () => req.close(NGHTTP2_CANCEL));
      req.on('response', (headers) => {
        let body = '';
        req.on('data', (chunk) => (body += chunk));
        const headerStatus = headers[HTTP2_HEADER_STATUS];
        req.on('end', () => {
          resolve({
            statusCode: Array.isArray(headerStatus) ? headerStatus[0] : headerStatus || '400',
            headers, body });
        });
      });
      req.on('error', reject);
      req.on('timeout', () => reject(new Error(`http2: timeout connecting to ${this._url}`)));
      if (body) { req.write(body); }
      req.end();
    });
  }
  \<close>
  The call runs to \<open>req.end()\<close> at once (\<open>request_issue\<close>: the checks, then the effects on
  the connection); the promise settles later, when the stream ends (\<open>request_settle\<close>).
\<close>

definition request_issue ::
  "http2client \<Rightarrow> client_options \<Rightarrow> jsval \<Rightarrow> jsval + effect list" where
  "request_issue c opts bdy =
     (case http_method opts of
        None \<Rightarrow> Inl (JObj (Error ''method is required'') [])
      | Some m \<Rightarrow>
          if m = [] then Inl (JObj (Error ''method is required'') [])
          else if path opts = [] then Inl (JObj (Error ''path is required'') [])
          else (case session c of
                  None \<Rightarrow> Inl (JObj (Error ''Must call connect() before making a request'') [])
                | Some sid \<Rightarrow>
                    Inr ([SessionRequest sid
                            (AList.update HTTP2_HEADER_PATH (JStr (path opts))
                               (AList.update HTTP2_HEADER_METHOD (JStr m)
                                  (case headers opts of None \<Rightarrow> [] | Some hs \<Rightarrow> hs)))]
                         @ (if truthy bdy then [StreamWrite bdy] else [])
                         @ [StreamEnd])))"

definition response_status :: "header_obj \<Rightarrow> jsval" where
  "response_status hs =
     (if isArray (header hs HTTP2_HEADER_STATUS) then index0 (header hs HTTP2_HEADER_STATUS)
      else js_or (header hs HTTP2_HEADER_STATUS) (JStr ''400''))"

fun request_settle :: "http2client \<Rightarrow> stream_outcome \<Rightarrow> server_response completion" where
  "request_settle c (Completed hs chunks) =
     Returned \<lparr>statusCode = response_status hs, res_headers = hs, body = concat chunks\<rparr>"
| "request_settle c (StreamError e) = Threw e"
| "request_settle c StreamTimeout =
     Threw (JObj (Error (''http2: timeout connecting to '' @ url c)) [])"

text \<open>\<^verbatim>\<open>async post(options, body) { options.method = `POST`; return this.request(options, body); }\<close>\<close>

definition post_issue :: "http2client \<Rightarrow> client_options \<Rightarrow> jsval \<Rightarrow> jsval + effect list" where
  "post_issue c opts bdy = request_issue c (opts\<lparr>http_method := Some ''POST''\<rparr>) bdy"

section \<open>The client (\<open>APNS\<close>)\<close>

text \<open>
  \<^verbatim>\<open>
  constructor({ team, keyId, signingKey, defaultTopic = null, host, port, connections }) {
    if (!team) throw new Error(`team is required`);
    if (!keyId) throw new Error(`keyId is required`);
    if (!signingKey) throw new Error(`signingKey is required`);
    super();
    this._token = null;
    ...
    this._interval = setInterval(() => this._resetSigningToken(), RESET_TOKEN_INTERVAL).unref();
    this.on(Errors.expiredProviderToken, () => this._resetSigningToken());
  }
  \<close>
  An option left out is \<open>None\<close>. The listener is part of \<open>emit\<close>; the timer is
  \<open>timer_fires\<close>.
\<close>

record apns_options =
  opt_team :: "string option"
  opt_keyId :: "string option"
  opt_signingKey :: "string option"
  opt_defaultTopic :: "jsval option"

definition APNS_new :: "apns_options \<Rightarrow> int \<Rightarrow> jsval + apns" where
  "APNS_new opts clock =
     (case opt_team opts of
        None \<Rightarrow> Inl (JObj (Error ''team is required'') [])
      | Some t \<Rightarrow>
          if t = [] then Inl (JObj (Error ''team is required'') [])
          else (case opt_keyId opts of
                  None \<Rightarrow> Inl (JObj (Error ''keyId is required'') [])
                | Some k \<Rightarrow>
                    if k = [] then Inl (JObj (Error ''keyId is required'') [])
                    else (case opt_signingKey opts of
                            None \<Rightarrow> Inl (JObj (Error ''signingKey is required'') [])
                          | Some sk \<Rightarrow>
                              if sk = [] then Inl (JObj (Error ''signingKey is required'') [])
                              else Inr \<lparr>token = None, team = t, keyId = k, signingKey = sk,
                                        defaultTopic =
                                          (case opt_defaultTopic opts of
                                             None \<Rightarrow> JNull
                                           | Some d \<Rightarrow> if d = JUndefined then JNull else d),
                                        now = clock, trace = []\<rparr>)))"

definition timer_fires :: "platform \<Rightarrow> apns \<Rightarrow> apns" where
  "timer_fires P s = snd (resetSigningToken P s)"

text \<open>Time passes between two calls.\<close>

definition later :: "nat \<Rightarrow> apns \<Rightarrow> apns" where
  "later d s = s\<lparr>now := now s + int d\<rparr>"

text \<open>A send outcome that is returned: \<open>{ notification, deviceToken }\<close>, or the
  \<open>{ error }\<close> record of the batch calls.\<close>

datatype response =
    Delivered notification string
  | ErrorResult jsval

text \<open>
  \<^verbatim>\<open>
  async _handleServerResponse(res, deviceToken, notification) {
    if (res.statusCode === 200) { return { notification, deviceToken }; }
    let json;
    try { json = JSON.parse(res.body); }
    catch (err) { json = { reason: Errors.unknownError }; }
    json.statusCode = res.statusCode;
    json.notification = notification;
    this.emit(json.reason, json);
    this.emit(Errors.error, json);
    throw json;
  }
  \<close>
\<close>

definition parsed_body :: "platform \<Rightarrow> server_response \<Rightarrow> jsval" where
  "parsed_body P res =
     (case JSON_parse P (body res) of
        None \<Rightarrow> JObj Plain [(''reason'', JStr Errors_unknownError)]
      | Some j \<Rightarrow> j)"

definition handleServerResponse ::
  "platform \<Rightarrow> server_response \<Rightarrow> string \<Rightarrow> notification \<Rightarrow> apns
     \<Rightarrow> response completion \<times> apns" where
  "handleServerResponse P res tok n s =
     (if statusCode res = JNum 200 then (Returned (Delivered n tok), s)
      else (case set_prop (parsed_body P res) ''statusCode'' (statusCode res) of
              None \<Rightarrow> (Threw (JObj TypeError []), s)
            | Some j1 \<Rightarrow>
                (case set_prop j1 ''notification'' (JObj (NotificationObj n) []) of
                   None \<Rightarrow> (Threw (JObj TypeError []), s)
                 | Some json \<Rightarrow>
                     (Threw json,
                      emit P (JStr Errors_error) [json]
                        (emit P (get_prop json ''reason'') [json] s)))))"

text \<open>
  The first part of \<open>_sendOne\<close>, up to the first \<open>await\<close>:
  \<^verbatim>\<open>
  let options = {
    path: `/${API_VERSION}/device/${encodeURIComponent(deviceToken)}`,
    headers: {
      authorization: `bearer ${this._getSigningToken()}`,
      'apns-push-type': notification.pushType,
      'apns-priority': notification.priority,
      'apns-topic': notification.topic || this._defaultTopic,
    },
  };
  if (notification.expiration) {
    options.headers['apns-expiration'] =
      notification.expiration instanceof Date
        ? notification.expiration.getTime() / 1000
        : notification.expiration;
  }
  if (notification.collapseId) {
    options.headers['apns-collapse-id'] = notification.collapseId;
  }
  \<close>
\<close>

definition expiration_header :: "notification \<Rightarrow> jsval" where
  "expiration_header n =
     (if instanceof_Date (expiration n) then getTime_div_1000 (expiration n)
      else expiration n)"

definition request_headers :: "string option \<Rightarrow> jsval \<Rightarrow> notification \<Rightarrow> header_obj" where
  "request_headers tk dflt n =
     (let h0 = [(''authorization'', JStr (''bearer '' @ token_text tk)),
                (''apns-push-type'', pushType n),
                (''apns-priority'', priority n),
                (''apns-topic'', js_or (topic n) dflt)];
          h1 = (if truthy (expiration n)
                then AList.update ''apns-expiration'' (expiration_header n) h0 else h0)
      in if truthy (collapseId n)
         then AList.update ''apns-collapse-id'' (collapseId n) h1 else h1)"

definition build_options ::
  "platform \<Rightarrow> string \<Rightarrow> notification \<Rightarrow> apns \<Rightarrow> client_options \<times> apns" where
  "build_options P tok n s =
     (case getSigningToken P s of
        (tk, s1) \<Rightarrow>
          (\<lparr>http_method = None,
            path = ''/'' @ API_VERSION @ ''/device/'' @ encodeURIComponent tok,
            headers = Some (request_headers tk (defaultTopic s1) n)\<rparr>,
           s1))"

text \<open>
  The rest of \<open>_sendOne\<close>:
  \<^verbatim>\<open>
  let client = await this._acquireClient();
  this._releaseClient(client);
  let body = JSON.stringify(notification.APNSOptions());
  let res = await client.post(options, body);
  return this._handleServerResponse(res, deviceToken, notification);
  \<close>
  The function is suspended twice: until the pool answers, and until the request stream
  ends. A send in flight waits for the pool, or waits for the response, or has
  settled. \<open>sendOne_start\<close> runs to the first \<open>await\<close>, \<open>sendOne_acquired\<close> runs
  from the pool's answer (a session, or a rejection) to the second \<open>await\<close>,
  \<open>sendOne_responded\<close> runs from the end of the stream to the end.
\<close>

datatype sending =
    AwaitAcquire client_options string notification
  | AwaitResponse http2client string notification
  | Settled "response completion"

definition sendOne_start :: "platform \<Rightarrow> string \<Rightarrow> notification \<Rightarrow> apns \<Rightarrow> sending \<times> apns" where
  "sendOne_start P tok n s =
     (case build_options P tok n s of
        (opts, s1) \<Rightarrow> (AwaitAcquire opts tok n, record_effect PoolAcquire s1))"

definition sendOne_acquired ::
  "platform \<Rightarrow> jsval + http2client \<Rightarrow> client_options \<Rightarrow> string \<Rightarrow> notification \<Rightarrow> apns
     \<Rightarrow> sending \<times> apns" where
  "sendOne_acquired P acq opts tok n s =
     (case acq of
        Inl e \<Rightarrow> (Settled (Threw e), s)
      | Inr c \<Rightarrow>
          (case JSON_stringify P (APNSOptions n) of
             Inl e \<Rightarrow> (Settled (Threw e), record_effect (PoolRelease c) s)
           | Inr bdy \<Rightarrow>
               (case post_issue c opts bdy of
                  Inl e \<Rightarrow> (Settled (Threw e), record_effect (PoolRelease c) s)
                | Inr effs \<Rightarrow>
                    (AwaitResponse c tok n,
                     (record_effect (PoolRelease c) s)
                       \<lparr>trace := trace (record_effect (PoolRelease c) s) @ effs\<rparr>))))"

definition sendOne_responded ::
  "platform \<Rightarrow> stream_outcome \<Rightarrow> http2client \<Rightarrow> string \<Rightarrow> notification \<Rightarrow> apns
     \<Rightarrow> sending \<times> apns" where
  "sendOne_responded P strm c tok n s =
     (case request_settle c strm of
        Threw e \<Rightarrow> (Settled (Threw e), s)
      | Returned res \<Rightarrow>
          (case handleServerResponse P res tok n s of (r, s1) \<Rightarrow> (Settled r, s1)))"

text \<open>One resumption of a send in flight, given what the pool and the gateway answer
  to it.\<close>

fun resume ::
  "platform \<Rightarrow> jsval + http2client \<Rightarrow> stream_outcome \<Rightarrow> sending \<Rightarrow> apns \<Rightarrow> sending \<times> apns" where
  "resume P acq strm (AwaitAcquire opts tok n) s = sendOne_acquired P acq opts tok n s"
| "resume P acq strm (AwaitResponse c tok n) s = sendOne_responded P strm c tok n s"
| "resume P acq strm (Settled r) s = (Settled r, s)"

text \<open>
  A single send, from call to settlement: \<open>send\<close> is \<open>_sendOne\<close>. The result is \<open>None\<close>
  only if the send has not settled after both resumptions, which does not happen
  (\<open>sendOne_settles\<close> below).
\<close>

fun settled :: "sending \<Rightarrow> response completion option" where
  "settled (Settled r) = Some r"
| "settled t = None"

definition sendOne ::
  "platform \<Rightarrow> jsval + http2client \<Rightarrow> stream_outcome \<Rightarrow> string \<Rightarrow> notification \<Rightarrow> apns
     \<Rightarrow> response completion option \<times> apns" where
  "sendOne P acq strm tok n s =
     (case sendOne_start P tok n s of
        (t1, s1) \<Rightarrow>
          (case resume P acq strm t1 s1 of
             (t2, s2) \<Rightarrow>
               (case resume P acq strm t2 s2 of
                  (t3, s3) \<Rightarrow> (settled t3, s3))))"

definition send ::
  "platform \<Rightarrow> jsval + http2client \<Rightarrow> stream_outcome \<Rightarrow> string \<Rightarrow> notification \<Rightarrow> apns
     \<Rightarrow> response completion option \<times> apns" where
  "send P acq strm tok n s = sendOne P acq strm tok n s"

section \<open>Batch sends\<close>

text \<open>
  \<^verbatim>\<open>
  async sendMany(notifications) {
    let promises = notifications.map(async (notification) => {
      try { return await this._sendOne(notification.deviceToken, notification); }
      catch (error) { return { error }; }
    });
    return Promise.all(promises);
  }
  async sendToMany(deviceTokens, notification) {
    const promises = deviceTokens.map(async (device) => {
      try { return await this._sendOne(device, notification); }
      catch (error) { return { error }; }
    });
    return Promise.all(promises);
  }
  \<close>
  \<open>map\<close> calls the wrapper for every member in turn, and each call runs to the first
  \<open>await\<close> of its \<open>_sendOne\<close>: all members are started, in order, before any is resumed.
  After that the members are resumed in the order in which the pool and the gateway
  answer them: a schedule is the list of the members resumed, one entry per resumption.
  What the pool and the gateway answer to member \<open>i\<close> is \<open>acquired W i\<close> and
  \<open>answered W i\<close>.
\<close>

record answers =
  acquired :: "nat \<Rightarrow> jsval + http2client"
  answered :: "nat \<Rightarrow> stream_outcome"

fun start_all ::
  "platform \<Rightarrow> (string \<times> notification) list \<Rightarrow> apns \<Rightarrow> sending list \<times> apns" where
  "start_all P [] s = ([], s)"
| "start_all P ((tok, n) # rest) s =
     (case sendOne_start P tok n s of
        (t, s1) \<Rightarrow> (case start_all P rest s1 of (ts, s2) \<Rightarrow> (t # ts, s2)))"

fun run_schedule ::
  "platform \<Rightarrow> answers \<Rightarrow> nat list \<Rightarrow> sending list \<Rightarrow> apns \<Rightarrow> sending list \<times> apns" where
  "run_schedule P W [] ts s = (ts, s)"
| "run_schedule P W (i # sched) ts s =
     (if i < length ts
      then (case resume P (acquired W i) (answered W i) (ts ! i) s of
              (t, s1) \<Rightarrow> run_schedule P W sched (ts[i := t]) s1)
      else run_schedule P W sched ts s)"

text \<open>The wrapper's \<open>try\<close>/\<open>catch\<close>: what \<open>_sendOne\<close> throws is returned as \<open>{ error }\<close>.\<close>

fun wrapped :: "response completion \<Rightarrow> response completion" where
  "wrapped (Returned r) = Returned r"
| "wrapped (Threw e) = Returned (ErrorResult e)"

fun member_promise :: "sending \<Rightarrow> response completion option" where
  "member_promise (Settled r) = Some (wrapped r)"
| "member_promise t = None"

text \<open>
  \<open>Promise.all\<close>: rejected if a member is rejected, fulfilled with the list of the
  values when every member is fulfilled, pending (\<open>None\<close>) otherwise. Where several
  members are rejected the model names the leftmost.
\<close>

fun first_rejection :: "'a completion option list \<Rightarrow> jsval option" where
  "first_rejection [] = None"
| "first_rejection (Some (Threw e) # ps) = Some e"
| "first_rejection (p # ps) = first_rejection ps"

fun fulfilled_values :: "'a completion option list \<Rightarrow> 'a list option" where
  "fulfilled_values [] = Some []"
| "fulfilled_values (Some (Returned v) # ps) =
     (case fulfilled_values ps of None \<Rightarrow> None | Some vs \<Rightarrow> Some (v # vs))"
| "fulfilled_values (p # ps) = None"

definition Promise_all :: "'a completion option list \<Rightarrow> 'a list completion option" where
  "Promise_all ps =
     (case first_rejection ps of
        Some e \<Rightarrow> Some (Threw e)
      | None \<Rightarrow> (case fulfilled_values ps of None \<Rightarrow> None | Some vs \<Rightarrow> Some (Returned vs)))"

definition send_batch ::
  "platform \<Rightarrow> answers \<Rightarrow> nat list \<Rightarrow> (string \<times> notification) list \<Rightarrow> apns
     \<Rightarrow> response list completion option \<times> apns" where
  "send_batch P W sched members s =
     (case start_all P members s of
        (ts, s1) \<Rightarrow>
          (case run_schedule P W sched ts s1 of
             (ts', s2) \<Rightarrow> (Promise_all (map member_promise ts'), s2)))"

definition sendMany ::
  "platform \<Rightarrow> answers \<Rightarrow> nat list \<Rightarrow> notification list \<Rightarrow> apns
     \<Rightarrow> response list completion option \<times> apns" where
  "sendMany P W sched notifications s =
     send_batch P W sched (map (\<lambda>n. (deviceToken n, n)) notifications) s"

definition sendToMany ::
  "platform \<Rightarrow> answers \<Rightarrow> nat list \<Rightarrow> string list \<Rightarrow> notification \<Rightarrow> apns
     \<Rightarrow> response list completion option \<times> apns" where
  "sendToMany P W sched deviceTokens n s =
     send_batch P W sched (map (\<lambda>device. (device, n)) deviceTokens) s"

section \<open>Notions used in the statements\<close>

text \<open>What signing yields in a state, and what a signing attempt adds to the trace: the
  call of \<open>jwt.sign\<close>, followed by the invalid-signing-key event when it throws.\<close>

definition sign_result :: "platform \<Rightarrow> apns \<Rightarrow> string option" where
  "sign_result P s = jwt_sign P (token_claims s) (signingKey s) (token_options s)"

definition sign_effects :: "platform \<Rightarrow> apns \<Rightarrow> effect list" where
  "sign_effects P s =
     JwtSign (token_claims s) (signingKey s) (token_options s)
       # (case sign_result P s of
            None \<Rightarrow> [Emitted (JStr Errors_invalidSigningKey) []]
          | Some t \<Rightarrow> [])"

text \<open>What a call added to the trace.\<close>

definition added :: "apns \<Rightarrow> apns \<Rightarrow> effect list" where
  "added s s' = drop (length (trace s)) (trace s')"

text \<open>The events in a trace, in order, each with the arguments given to its listeners.\<close>

fun emitted :: "effect list \<Rightarrow> (jsval \<times> jsval list) list" where
  "emitted [] = []"
| "emitted (Emitted ev args # xs) = (ev, args) # emitted xs"
| "emitted (x # xs) = emitted xs"


section \<open>Example data\<close>

text \<open>
  A platform whose signer succeeds and one whose signer throws. The parser of the
  examples knows the two error bodies used below, on which it agrees with \<open>JSON.parse\<close>,
  and rejects everything else; the serialiser knows the payload of the example
  notification.
\<close>

definition example_parse :: "string \<Rightarrow> jsval option" where
  \<open>example_parse b =
     (if b = ''{"reason":"Unregistered"}''
      then Some (JObj Plain [(''reason'', JStr ''Unregistered'')])
      else if b = ''{"reason":"ExpiredProviderToken"}''
      then Some (JObj Plain [(''reason'', JStr ''ExpiredProviderToken'')])
      else None)\<close>

definition example_payload :: jsval where
  "example_payload = JObj Plain [(''aps'', JObj Plain [(''alert'', JStr ''Hello'')])]"

definition example_stringify :: "jsval \<Rightarrow> jsval + jsval" where
  \<open>example_stringify v =
     (if v = example_payload then Inr (JStr ''{"aps":{"alert":"Hello"}}'')
      else Inl (JObj TypeError []))\<close>

definition P_ok :: platform where
  "P_ok = \<lparr>jwt_sign = (\<lambda>c k opts. Some (''jwt.'' @ iss c @ ''.'' @ kid (header_opt opts))),
           JSON_parse = example_parse,
           JSON_stringify = example_stringify\<rparr>"

definition P_badkey :: platform where
  "P_badkey = \<lparr>jwt_sign = (\<lambda>c k opts. None),
               JSON_parse = example_parse,
               JSON_stringify = example_stringify\<rparr>"

definition apns0 :: apns where
  "apns0 = \<lparr>token = None, team = ''T1'', keyId = ''K1'', signingKey = ''validKey'',
            defaultTopic = JStr ''com.example.app'', now = 1700000000000, trace = []\<rparr>"

definition note0 :: notification where
  "note0 = Notification ''abc123'' (JStr ''alert'') (JNum 10) JUndefined JUndefined JUndefined
             example_payload"

definition conn0 :: http2client where
  "conn0 = \<lparr>url = ''https://api.push.apple.com:443'', timeout = 5000, ready_flag = True,
            session = Some 1\<rparr>"

definition res_ok :: server_response where
  "res_ok = \<lparr>statusCode = JNum 200, res_headers = [('':status'', JNum 200)], body = []\<rparr>"




text \<open>A number that is whole.\<close>

fun is_whole :: "jsval \<Rightarrow> bool" where
  "is_whole (JNum q) = (q = of_int \<lfloor>q\<rfloor>)"
| "is_whole v = False"

text \<open>The value of a header in the options of a request.\<close>

definition sent_header :: "client_options \<Rightarrow> string \<Rightarrow> jsval" where
  "sent_header opts name = header (case headers opts of None \<Rightarrow> [] | Some hs \<Rightarrow> hs) name"

text \<open>A notification that expires at a \<open>Date\<close> half a second past a whole second
  (\<open>new Date(1700000000500)\<close>), and one whose expiration is the number 0.\<close>

definition note_expiring :: notification where
  "note_expiring = Notification ''abc123'' (JStr ''alert'') (JNum 10) JUndefined
                     (JObj (Date (Some 1700000000500)) []) JUndefined example_payload"

definition note_expire_now :: notification where
  "note_expire_now = Notification ''abc123'' (JStr ''alert'') (JNum 10) JUndefined
                       (JNum 0) JUndefined example_payload"

text \<open>A transport session as its constructor leaves it.\<close>

definition fresh0 :: http2client where
  "fresh0 = \<lparr>url = ''https://api.push.apple.com:443'', timeout = 5000, ready_flag = False,
             session = None\<rparr>"




fun quiet :: "effect \<Rightarrow> bool" where
  "quiet (JwtSign c k opts) = True"
| "quiet (Emitted ev args) = True"
| "quiet x = False"

fun position :: "('a \<Rightarrow> bool) \<Rightarrow> 'a list \<Rightarrow> nat option" where
  "position p [] = None"
| "position p (x # xs) = (if p x then Some 0 else map_option Suc (position p xs))"



text \<open>The record a batch holds for a member: what the member's send returned, or
  \<open>{ error }\<close> around what it threw.\<close>

fun record_of :: "response completion \<Rightarrow> response" where
  "record_of (Returned r) = r"
| "record_of (Threw e) = ErrorResult e"

text \<open>A schedule is complete for \<open>k\<close> members when each of them is resumed at least
  twice: once with the pool's answer, once with the end of its stream.\<close>

definition complete_schedule :: "nat list \<Rightarrow> nat \<Rightarrow> bool" where
  "complete_schedule sched k = list_all (\<lambda>i. 2 \<le> count_list sched i) [0..<k]"

text \<open>A second notification, for a device that is no longer registered, and a pool and
  gateway that accept member 0 and answer 410 to member 1.\<close>

definition note1 :: notification where
  "note1 = Notification ''gone456'' (JStr ''alert'') (JNum 10) JUndefined JUndefined JUndefined
             example_payload"

definition answers0 :: answers where
  \<open>answers0 =
     \<lparr>acquired = (\<lambda>i. Inr conn0),
      answered = (\<lambda>i. if i = 1
                       then Completed [('':status'', JNum 410)] [''{"reason":"Unregistered"}'']
                       else Completed [('':status'', JNum 200)] [])\<rparr>\<close>

section \<open>Token manager: facts\<close>

lemma emit_other:
  "ev \<noteq> JStr Errors_expiredProviderToken \<Longrightarrow> emit P ev args s = record_effect (Emitted ev args) s"
  by (simp add: emit.simps)

lemma invalid_not_expired: "JStr Errors_invalidSigningKey \<noteq> JStr Errors_expiredProviderToken"
  by (simp add: Errors_invalidSigningKey_def Errors_expiredProviderToken_def)

lemma token_claims_upd [simp]:
  "token_claims (s\<lparr>token := x\<rparr>) = token_claims s"
  "token_claims (s\<lparr>trace := y\<rparr>) = token_claims s"
  "token_options (s\<lparr>token := x\<rparr>) = token_options s"
  "token_options (s\<lparr>trace := y\<rparr>) = token_options s"
  by (simp_all add: token_claims_def token_options_def)

lemma sign_upd [simp]:
  "sign_result P (s\<lparr>token := x\<rparr>) = sign_result P s"
  "sign_effects P (s\<lparr>token := x\<rparr>) = sign_effects P s"
  by (simp_all add: sign_result_def sign_effects_def)

lemma getSigningToken_cached:
  "token_cached (token s) \<Longrightarrow> getSigningToken P s = (token s, s)"
  by (simp add: getSigningToken.simps)

lemma getSigningToken_sign:
  "\<not> token_cached (token s) \<Longrightarrow>
   getSigningToken P s =
     (sign_result P s, s\<lparr>token := sign_result P s, trace := trace s @ sign_effects P s\<rparr>)"
  by (cases "sign_result P s")
     (simp_all add: getSigningToken.simps emit_other [OF invalid_not_expired] record_effect_def
        sign_result_def sign_effects_def)

lemma resetSigningToken_eq:
  "resetSigningToken P s =
     (sign_result P s, s\<lparr>token := sign_result P s, trace := trace s @ sign_effects P s\<rparr>)"
  by (simp add: resetSigningToken.simps getSigningToken_sign)

lemma emit_expired:
  "emit P (JStr Errors_expiredProviderToken) args s =
     s\<lparr>token := sign_result P s,
       trace := trace s @ Emitted (JStr Errors_expiredProviderToken) args # sign_effects P s\<rparr>"
  by (simp add: emit.simps resetSigningToken_eq record_effect_def sign_result_def sign_effects_def
        token_claims_def token_options_def)




lemma APNS_new_example:
  "APNS_new \<lparr>opt_team = Some ''T1'', opt_keyId = Some ''K1'', opt_signingKey = Some ''validKey'',
             opt_defaultTopic = Some (JStr ''com.example.app'')\<rparr> 1700000000000 = Inr apns0"
  by (simp add: APNS_new_def apns0_def)

section \<open>Response classification: facts\<close>

lemma added_append [simp]: "added s (s'\<lparr>trace := trace s @ xs\<rparr>) = xs"
  by (simp add: added_def)

lemma handle_200:
  "statusCode res = JNum 200 \<Longrightarrow>
   handleServerResponse P res tok n s = (Returned (Delivered n tok), s)"
  by (simp add: handleServerResponse_def)

lemma handle_throws:
  "statusCode res \<noteq> JNum 200 \<Longrightarrow> \<exists>e s'. handleServerResponse P res tok n s = (Threw e, s')"
  by (simp add: handleServerResponse_def split: option.splits)



lemma response_status_absent:
  "map_of hs HTTP2_HEADER_STATUS = None \<Longrightarrow> response_status hs = JStr ''400''"
  by (simp add: response_status_def header_def js_or_def)

section \<open>Properties of the token manager and of the response classification\<close>

text \<open>
  C6. \<open>_getSigningToken\<close> returns the cached token whenever there is one (a non-empty
  string in \<open>_token\<close>, which is what \<open>if (this._token)\<close> tests), without signing and
  without any other effect. Otherwise it signs from the team as issuer, the time in
  seconds, the signing key, \<open>ES256\<close> and the key identifier; when signing succeeds it
  caches and returns the new token; when signing throws it returns \<open>null\<close>, leaves no
  token cached, and emits the invalid-signing-key event. In each case the call returns:
  nothing is thrown to the caller.
\<close>

theorem getSigningToken_cache_sign_or_null:
  "(token_cached (token s) \<longrightarrow> getSigningToken P s = (token s, s))
   \<and> (\<not> token_cached (token s) \<longrightarrow>
        (\<forall>t. jwt_sign P \<lparr>iss = team s, iat = of_int (now s) / 1000\<rparr> (signingKey s)
               \<lparr>algorithm = ''ES256'', header_opt = \<lparr>alg = ''ES256'', kid = keyId s\<rparr>\<rparr> = Some t
          \<longrightarrow> getSigningToken P s =
                (Some t,
                 s\<lparr>token := Some t,
                   trace := trace s @
                     [JwtSign \<lparr>iss = team s, iat = of_int (now s) / 1000\<rparr> (signingKey s)
                        \<lparr>algorithm = ''ES256'',
                         header_opt = \<lparr>alg = ''ES256'', kid = keyId s\<rparr>\<rparr>]\<rparr>))
        \<and> (jwt_sign P \<lparr>iss = team s, iat = of_int (now s) / 1000\<rparr> (signingKey s)
               \<lparr>algorithm = ''ES256'', header_opt = \<lparr>alg = ''ES256'', kid = keyId s\<rparr>\<rparr> = None
          \<longrightarrow> getSigningToken P s =
                (None,
                 s\<lparr>token := None,
                   trace := trace s @
                     [JwtSign \<lparr>iss = team s, iat = of_int (now s) / 1000\<rparr> (signingKey s)
                        \<lparr>algorithm = ''ES256'',
                         header_opt = \<lparr>alg = ''ES256'', kid = keyId s\<rparr>\<rparr>,
                      Emitted (JStr Errors_invalidSigningKey) []]\<rparr>)))"
  by (simp add: getSigningToken_cached getSigningToken_sign sign_result_def sign_effects_def
        token_claims_def token_options_def SIGNING_ALGORITHM_def)

theorem getSigningToken_cache_sign_or_null_witness:
  "getSigningToken P_ok (apns0\<lparr>token := Some ''cached''\<rparr>)
     = (Some ''cached'', apns0\<lparr>token := Some ''cached''\<rparr>)
   \<and> fst (getSigningToken P_ok apns0) = Some ''jwt.T1.K1''
   \<and> token (snd (getSigningToken P_ok apns0)) = Some ''jwt.T1.K1''
   \<and> fst (getSigningToken P_badkey apns0) = None
   \<and> token (snd (getSigningToken P_badkey apns0)) = None
   \<and> emitted (trace (snd (getSigningToken P_badkey apns0))) = [(JStr ''InvalidSigningKey'', [])]"
  using getSigningToken_cache_sign_or_null [of "apns0\<lparr>token := Some ''cached''\<rparr>" P_ok]
    getSigningToken_cache_sign_or_null [of apns0 P_ok]
    getSigningToken_cache_sign_or_null [of apns0 P_badkey]
  by (simp add: apns0_def P_ok_def P_badkey_def Errors_invalidSigningKey_def)

text \<open>
  C1. When the response's \<open>statusCode\<close> is the number 200, \<open>_handleServerResponse\<close>
  returns the success outcome \<open>{ notification, deviceToken }\<close> with the notification and
  the device identifier it was given, and changes nothing: no event, no signing, the
  notification as it was. So does the last part of a send whose completed stream carries
  the status 200. The comparison is strict: a \<open>statusCode\<close> that is a string, \<open>'200'\<close>
  included, is not the number 200 and the call throws.
\<close>

theorem handleServerResponse_status_200:
  "(statusCode res = JNum 200 \<longrightarrow>
      handleServerResponse P res tok n s = (Returned (Delivered n tok), s))
   \<and> (response_status hs = JNum 200 \<longrightarrow>
        sendOne_responded P (Completed hs chunks) c tok n s
          = (Settled (Returned (Delivered n tok)), s))
   \<and> (\<forall>str. statusCode res = JStr str \<longrightarrow>
        (\<exists>e s'. handleServerResponse P res tok n s = (Threw e, s')))"
proof (intro conjI impI allI)
  assume "statusCode res = JNum 200"
  then show "handleServerResponse P res tok n s = (Returned (Delivered n tok), s)"
    by (rule handle_200)
next
  assume "response_status hs = JNum 200"
  then show "sendOne_responded P (Completed hs chunks) c tok n s
               = (Settled (Returned (Delivered n tok)), s)"
    by (simp add: sendOne_responded_def handle_200)
next
  fix str
  assume "statusCode res = JStr str"
  then have "statusCode res \<noteq> JNum 200" by simp
  then show "\<exists>e s'. handleServerResponse P res tok n s = (Threw e, s')"
    by (rule handle_throws)
qed

theorem handleServerResponse_status_200_witness:
  "handleServerResponse P_ok res_ok ''abc123'' note0 apns0
     = (Returned (Delivered note0 ''abc123''), apns0)
   \<and> sendOne_responded P_ok (Completed [('':status'', JNum 200)] []) conn0 ''abc123'' note0 apns0
        = (Settled (Returned (Delivered note0 ''abc123'')), apns0)
   \<and> (\<exists>e s'. handleServerResponse P_ok (res_ok\<lparr>statusCode := JStr ''200''\<rparr>) ''abc123'' note0
                 apns0 = (Threw e, s'))"
  using handleServerResponse_status_200
          [of res_ok P_ok "''abc123''" note0 apns0 "[('':status'', JNum 200)]" "[]" conn0]
    handleServerResponse_status_200
          [of "res_ok\<lparr>statusCode := JStr ''200''\<rparr>" P_ok "''abc123''" note0 apns0]
  by (simp add: res_ok_def response_status_def header_def js_or_def HTTP2_HEADER_STATUS_def)






text \<open>
  C10. When the stream of a request completes and the response headers carry no
  \<open>:status\<close>, \<open>request\<close> resolves with the string \<open>'400'\<close> as \<open>statusCode\<close>; the send then
  settles by throwing, whatever the body: such a response is never a success.
\<close>

theorem request_without_status_is_failure:
  assumes "map_of hs HTTP2_HEADER_STATUS = None"
  shows "request_settle c (Completed hs chunks) =
           Returned \<lparr>statusCode = JStr ''400'', res_headers = hs, body = concat chunks\<rparr>
         \<and> (\<exists>e s'. sendOne_responded P (Completed hs chunks) c tok n s = (Settled (Threw e), s'))"
proof -
  have st: "response_status hs = JStr ''400''"
    using assms by (rule response_status_absent)
  have ne: "statusCode \<lparr>statusCode = JStr ''400'', res_headers = hs, body = concat chunks\<rparr>
              \<noteq> JNum 200"
    by simp
  from handle_throws [OF ne]
  obtain e s' where
    "handleServerResponse P \<lparr>statusCode = JStr ''400'', res_headers = hs, body = concat chunks\<rparr>
       tok n s = (Threw e, s')"
    by blast
  then show ?thesis
    by (simp add: st sendOne_responded_def)
qed

theorem request_without_status_is_failure_witness:
  "map_of [(''apns-id'', JStr ''x'')] HTTP2_HEADER_STATUS = None
   \<and> request_settle conn0 (Completed [(''apns-id'', JStr ''x'')] []) =
        Returned \<lparr>statusCode = JStr ''400'', res_headers = [(''apns-id'', JStr ''x'')], body = []\<rparr>
   \<and> (\<exists>e s'. sendOne_responded P_ok (Completed [(''apns-id'', JStr ''x'')] []) conn0 ''abc123''
                 note0 apns0 = (Settled (Threw e), s'))"
proof -
  have h: "map_of [(''apns-id'', JStr ''x'')] HTTP2_HEADER_STATUS = None"
    by (simp add: HTTP2_HEADER_STATUS_def)
  from request_without_status_is_failure [OF h, of conn0 "[]" P_ok "''abc123''" note0 apns0]
  show ?thesis
    using h by simp
qed

lemma later_simps [simp]:
  "token (later d s) = token s" "trace (later d s) = trace s"
  "now (later d s) = now s + int d"
  by (simp_all add: later_def)

text \<open>
  C7. When the \<open>ExpiredProviderToken\<close> event fires on the client, the cached token is
  replaced by what a new signing gives (the old one is dropped, whatever it was). The
  next \<open>_getSigningToken\<close>, any time later, returns the outcome of a signing that was
  performed after the event was emitted: the trace shows the event, then that signing.
  The token cached before the event has no part in it: the call returns the same for
  every earlier content of the cache.
\<close>

theorem expired_event_forces_new_token:
  "token (emit P (JStr Errors_expiredProviderToken) args s) = sign_result P s
   \<and> (\<exists>pre c k opts post.
         trace (snd (getSigningToken P (later d (emit P (JStr Errors_expiredProviderToken) args s))))
           = trace s @ Emitted (JStr Errors_expiredProviderToken) args # pre @ JwtSign c k opts # post
         \<and> fst (getSigningToken P (later d (emit P (JStr Errors_expiredProviderToken) args s)))
             = jwt_sign P c k opts)
   \<and> (\<forall>stale.
         fst (getSigningToken P
               (later d (emit P (JStr Errors_expiredProviderToken) args (s\<lparr>token := stale\<rparr>))))
         = fst (getSigningToken P (later d (emit P (JStr Errors_expiredProviderToken) args s))))"
proof (intro conjI allI)
  let ?ev = "JStr Errors_expiredProviderToken"
  let ?s1 = "emit P ?ev args s"
  show "token ?s1 = sign_result P s"
    by (simp add: emit_expired)
  show "\<exists>pre c k opts post.
         trace (snd (getSigningToken P (later d ?s1)))
           = trace s @ Emitted ?ev args # pre @ JwtSign c k opts # post
         \<and> fst (getSigningToken P (later d ?s1)) = jwt_sign P c k opts"
  proof (cases "token_cached (sign_result P s)")
    case True
    then obtain t where t: "sign_result P s = Some t" by (cases "sign_result P s") auto
    have c: "token_cached (token (later d ?s1))"
      using True by (simp add: emit_expired)
    have "trace (snd (getSigningToken P (later d ?s1)))
            = trace s @ Emitted ?ev args # [] @
                JwtSign (token_claims s) (signingKey s) (token_options s) # []
          \<and> fst (getSigningToken P (later d ?s1))
              = jwt_sign P (token_claims s) (signingKey s) (token_options s)"
      unfolding getSigningToken_cached [OF c]
      using t by (simp add: emit_expired sign_effects_def sign_result_def)
    then show ?thesis by blast
  next
    case False
    let ?s2 = "later d ?s1"
    have c: "\<not> token_cached (token ?s2)"
      using False by (simp add: emit_expired)
    obtain rest where rest: "sign_effects P ?s2
        = JwtSign (token_claims ?s2) (signingKey ?s2) (token_options ?s2) # rest"
      by (simp add: sign_effects_def)
    have "trace (snd (getSigningToken P ?s2))
            = trace s @ Emitted ?ev args # sign_effects P s @
                JwtSign (token_claims ?s2) (signingKey ?s2) (token_options ?s2) # rest
          \<and> fst (getSigningToken P ?s2)
              = jwt_sign P (token_claims ?s2) (signingKey ?s2) (token_options ?s2)"
      unfolding getSigningToken_sign [OF c]
      using rest by (simp add: emit_expired sign_result_def)
    then show ?thesis by blast
  qed
next
  fix stale
  have "emit P (JStr Errors_expiredProviderToken) args (s\<lparr>token := stale\<rparr>)
          = emit P (JStr Errors_expiredProviderToken) args s"
    by (simp add: emit_expired)
  then show "fst (getSigningToken P
               (later d (emit P (JStr Errors_expiredProviderToken) args (s\<lparr>token := stale\<rparr>))))
         = fst (getSigningToken P (later d (emit P (JStr Errors_expiredProviderToken) args s)))"
    by simp
qed

theorem expired_event_forces_new_token_witness:
  "token (emit P_ok (JStr Errors_expiredProviderToken) [] apns0) = Some ''jwt.T1.K1''
   \<and> fst (getSigningToken P_ok
           (later 1000 (emit P_ok (JStr Errors_expiredProviderToken) []
                          (apns0\<lparr>token := Some ''stale''\<rparr>))))
     = fst (getSigningToken P_ok
             (later 1000 (emit P_ok (JStr Errors_expiredProviderToken) [] apns0)))"
proof -
  note T = expired_event_forces_new_token [of P_ok "[]" apns0 1000]
  have sr: "sign_result P_ok apns0 = Some ''jwt.T1.K1''"
    by (simp add: sign_result_def token_claims_def token_options_def apns0_def P_ok_def)
  from T [THEN conjunct1] sr
  have a: "token (emit P_ok (JStr Errors_expiredProviderToken) [] apns0) = Some ''jwt.T1.K1''"
    by simp
  from T [THEN conjunct2, THEN conjunct2, THEN spec, of "Some ''stale''"] a
  show ?thesis by simp
qed

text \<open>
  C8 fails on the code. For a notification whose expiration is the \<open>Date\<close> of
  1700000000500 ms, the \<open>apns-expiration\<close> header is 1700000000500 / 1000, that is
  1700000000.5: the division is not rounded, and the value is not a whole number of
  seconds. (And an expiration that is the number 0 is dropped by the truthiness test:
  no header is set.)
\<close>

lemma expiring_header:
  "sent_header (fst (build_options P_ok ''abc123'' note_expiring apns0)) ''apns-expiration''
     = JNum (3400000001 / 2)"
  by (simp add: sent_header_def build_options_def request_headers_def expiration_header_def
      note_expiring_def getSigningToken.simps apns0_def P_ok_def header_def
      record_effect_def token_claims_def token_options_def js_or_def)

lemma not_whole: "\<not> is_whole (JNum (3400000001 / 2))"
  by code_simp

theorem expiration_header_not_whole_seconds:
  "sent_header (fst (build_options P_ok ''abc123'' note_expiring apns0)) ''apns-expiration''
     = JNum (1700000000500 / 1000)
   \<and> \<not> is_whole (sent_header (fst (build_options P_ok ''abc123'' note_expiring apns0))
                    ''apns-expiration'')
   \<and> sent_header (fst (build_options P_ok ''abc123'' note_expire_now apns0)) ''apns-expiration''
     = JUndefined"
proof (intro conjI)
  show "sent_header (fst (build_options P_ok ''abc123'' note_expiring apns0)) ''apns-expiration''
     = JNum (1700000000500 / 1000)"
    by (simp add: expiring_header)
  show "\<not> is_whole (sent_header (fst (build_options P_ok ''abc123'' note_expiring apns0))
                    ''apns-expiration'')"
    unfolding expiring_header by (rule not_whole)
  show "sent_header (fst (build_options P_ok ''abc123'' note_expire_now apns0)) ''apns-expiration''
     = JUndefined"
    by (simp add: sent_header_def build_options_def request_headers_def
      note_expire_now_def getSigningToken.simps apns0_def P_ok_def header_def
      record_effect_def token_claims_def token_options_def js_or_def)
qed

section \<open>Properties of the transport session\<close>

lemma ready_flag_step:
  "ready_flag (client T) \<longrightarrow> session (client T) \<noteq> None \<Longrightarrow>
   ready_flag (client (transport_step op T)) \<longrightarrow> session (client (transport_step op T)) \<noteq> None"
  by (cases op) (auto simp: destroy_def connected_session_def Let_def split: option.splits)

lemma ready_flag_run:
  "ready_flag (client T) \<longrightarrow> session (client T) \<noteq> None \<Longrightarrow>
   ready_flag (client (transport_run ops T)) \<longrightarrow> session (client (transport_run ops T)) \<noteq> None"
  unfolding transport_run_def
proof (induction ops arbitrary: T)
  case Nil
  then show ?case by simp
next
  case (Cons op ops)
  from Cons.IH [OF ready_flag_step [OF Cons.prems]] show ?case by simp
qed

lemma ready_means_live:
  "truthy (ready T) \<Longrightarrow> \<exists>sid. session (client T) = Some sid \<and> sid \<notin> destroyed T"
  by (auto simp: ready_def split: if_splits option.splits)

lemma destroy_not_ready: "\<not> truthy (ready (destroy T))"
  by (simp add: ready_def destroy_def Let_def split: option.splits)

lemma destroy_idem: "destroy (destroy T) = destroy T"
  by (simp add: destroy_def Let_def split: option.splits)

lemma only_connect_readies:
  assumes "truthy (ready (transport_step op T))" and "\<not> truthy (ready T)"
  shows "\<exists>sid. op = OpConnectOk sid"
proof (cases op)
  case OpDestroy
  then show ?thesis using assms(1) destroy_not_ready [of T] by simp
next
  case (OpTerminalEvent x)
  then show ?thesis using assms destroy_not_ready [of T] by (simp split: if_splits)
next
  case (OpSessionDies x)
  then show ?thesis using assms by (auto simp: ready_def split: if_splits option.splits)
next
  case OpConnectFails
  then show ?thesis using assms by simp
next
  case OpRequest
  then show ?thesis using assms by simp
qed simp

text \<open>
  C9. After the constructor the session is not ready and has no handle. After any
  sequence of operations and library events that follows, \<open>ready\<close> is true only if the
  handle is there and the library's session is not destroyed, and the flag \<open>_ready\<close> is
  set only if the handle is there. \<open>destroy()\<close> leaves the session not ready with the
  handle cleared, and a second \<open>destroy()\<close> changes nothing. \<open>_connected\<close> installs the
  handle and makes \<open>ready\<close> true (for a session the library has not destroyed), and it is
  the only step that turns \<open>ready\<close> from false to true.
\<close>

theorem transport_ready_invariant:
  "(HTTP2Client_new URL_valid host port tmo = Inr c0 \<longrightarrow>
      \<not> truthy (ready \<lparr>client = c0, destroyed = D, handlers = {}\<rparr>) \<and> session c0 = None
      \<and> (\<forall>ops. (truthy (ready (transport_run ops \<lparr>client = c0, destroyed = D, handlers = {}\<rparr>))
                  \<longrightarrow> (\<exists>sid. session (client (transport_run ops
                                 \<lparr>client = c0, destroyed = D, handlers = {}\<rparr>)) = Some sid
                            \<and> sid \<notin> destroyed (transport_run ops
                                 \<lparr>client = c0, destroyed = D, handlers = {}\<rparr>)))
               \<and> (ready_flag (client (transport_run ops
                      \<lparr>client = c0, destroyed = D, handlers = {}\<rparr>))
                  \<longrightarrow> session (client (transport_run ops
                         \<lparr>client = c0, destroyed = D, handlers = {}\<rparr>)) \<noteq> None)))
   \<and> \<not> truthy (ready (destroy T)) \<and> session (client (destroy T)) = None
   \<and> destroy (destroy T) = destroy T
   \<and> session (client (connected_session sid T)) = Some sid
   \<and> (truthy (ready (connected_session sid T)) \<longleftrightarrow> sid \<notin> destroyed T)
   \<and> (\<forall>op. truthy (ready (transport_step op T)) \<and> \<not> truthy (ready T)
          \<longrightarrow> (\<exists>sid'. op = OpConnectOk sid'))"
proof (intro conjI impI allI)
  assume new: "HTTP2Client_new URL_valid host port tmo = Inr c0"
  then have c0: "ready_flag c0 = False" "session c0 = None"
    by (auto simp: HTTP2Client_new_def split: if_splits)
  show "\<not> truthy (ready \<lparr>client = c0, destroyed = D, handlers = {}\<rparr>)"
    using c0 by (simp add: ready_def)
  show "session c0 = None" by (rule c0)
  fix ops
  let ?T = "transport_run ops \<lparr>client = c0, destroyed = D, handlers = {}\<rparr>"
  show "ready_flag (client ?T) \<Longrightarrow> session (client ?T) \<noteq> None"
    using ready_flag_run [of "\<lparr>client = c0, destroyed = D, handlers = {}\<rparr>" ops] c0 by simp
  show "truthy (ready ?T) \<Longrightarrow> \<exists>sid. session (client ?T) = Some sid \<and> sid \<notin> destroyed ?T"
    by (rule ready_means_live)
next
  show "\<not> truthy (ready (destroy T))" by (rule destroy_not_ready)
  show "session (client (destroy T)) = None"
    by (simp add: destroy_def Let_def split: option.splits)
  show "destroy (destroy T) = destroy T" by (rule destroy_idem)
  show "session (client (connected_session sid T)) = Some sid"
    by (simp add: connected_session_def)
  show "truthy (ready (connected_session sid T)) \<longleftrightarrow> sid \<notin> destroyed T"
    by (simp add: connected_session_def ready_def)
next
  fix op
  assume "truthy (ready (transport_step op T)) \<and> \<not> truthy (ready T)"
  then show "\<exists>sid'. op = OpConnectOk sid'"
    using only_connect_readies by blast
qed

lemma HTTP2Client_new_example:
  "HTTP2Client_new (\<lambda>u. True) ''api.push.apple.com'' 443 5000 = Inr fresh0"
  by (simp add: HTTP2Client_new_def fresh0_def dec.simps)

theorem transport_ready_invariant_witness:
  "HTTP2Client_new (\<lambda>u. True) ''api.push.apple.com'' 443 5000 = Inr fresh0
   \<and> \<not> truthy (ready \<lparr>client = fresh0, destroyed = {}, handlers = {}\<rparr>)
   \<and> truthy (ready (transport_run [OpConnectOk 1]
                      \<lparr>client = fresh0, destroyed = {}, handlers = {}\<rparr>))
   \<and> (\<exists>sid. session (client (transport_run [OpConnectOk 1]
                 \<lparr>client = fresh0, destroyed = {}, handlers = {}\<rparr>)) = Some sid
           \<and> sid \<notin> destroyed (transport_run [OpConnectOk 1]
                 \<lparr>client = fresh0, destroyed = {}, handlers = {}\<rparr>))
   \<and> \<not> truthy (ready (transport_run [OpConnectOk 1, OpSessionDies 1]
                        \<lparr>client = fresh0, destroyed = {}, handlers = {}\<rparr>))
   \<and> \<not> truthy (ready (transport_run [OpConnectOk 1, OpTerminalEvent 1]
                        \<lparr>client = fresh0, destroyed = {}, handlers = {}\<rparr>))"
  using transport_ready_invariant
          [of "\<lambda>u. True" "''api.push.apple.com''" 443 5000 fresh0 "{}"]
    HTTP2Client_new_example
  by (simp add: transport_run_def connected_session_def destroy_def ready_def fresh0_def)

section \<open>Properties of the send pipeline\<close>

lemma quiet_sign_effects: "list_all quiet (sign_effects P s)"
  by (simp add: sign_effects_def split: option.splits)

lemma emit_trace:
  "\<exists>xs. trace (emit P ev args s) = trace s @ xs \<and> list_all quiet xs"
proof (cases "ev = JStr Errors_expiredProviderToken")
  case True
  then show ?thesis by (simp add: emit_expired quiet_sign_effects)
next
  case False
  then show ?thesis by (simp add: emit_other record_effect_def)
qed

lemma handle_trace:
  "\<exists>xs. trace (snd (handleServerResponse P res tok n s)) = trace s @ xs \<and> list_all quiet xs"
proof -
  have two: "\<exists>xs. trace (emit P e2 a2 (emit P e1 a1 s)) = trace s @ xs \<and> list_all quiet xs"
    for e1 a1 e2 a2
  proof -
    obtain xs where xs: "trace (emit P e1 a1 s) = trace s @ xs" "list_all quiet xs"
      using emit_trace by blast
    obtain ys where ys: "trace (emit P e2 a2 (emit P e1 a1 s)) = trace (emit P e1 a1 s) @ ys"
      "list_all quiet ys"
      using emit_trace by blast
    have "trace (emit P e2 a2 (emit P e1 a1 s)) = trace s @ (xs @ ys) \<and> list_all quiet (xs @ ys)"
      using xs ys by simp
    then show ?thesis by blast
  qed
  show ?thesis
    using two by (auto simp: handleServerResponse_def split: option.splits)
qed

lemma getSigningToken_trace:
  "\<exists>xs. trace (snd (getSigningToken P s)) = trace s @ xs \<and> list_all quiet xs"
  by (cases "token_cached (token s)")
     (simp_all add: getSigningToken_cached getSigningToken_sign quiet_sign_effects)



lemma position_none: "list_all (\<lambda>x. \<not> p x) xs \<Longrightarrow> position p xs = None"
  by (induction xs) auto



lemma start_trace:
  "\<exists>opts s1 pre. sendOne_start P tok n s = (AwaitAcquire opts tok n, s1)
     \<and> trace s1 = trace s @ pre @ [PoolAcquire] \<and> list_all quiet pre
     \<and> path opts = ''/'' @ API_VERSION @ ''/device/'' @ encodeURIComponent tok"
proof -
  obtain tk s0 where g: "getSigningToken P s = (tk, s0)" by (cases "getSigningToken P s")
  obtain pre where pre: "trace s0 = trace s @ pre" "list_all quiet pre"
    using getSigningToken_trace [of P s] g by auto
  show ?thesis
    using pre by (simp add: sendOne_start_def build_options_def g record_effect_def)
qed

lemma responded_trace:
  "\<exists>r s3 post. sendOne_responded P strm c tok n s = (Settled r, s3)
     \<and> trace s3 = trace s @ post \<and> list_all quiet post"
proof (cases "request_settle c strm")
  case (Returned res)
  obtain r s3 where h: "handleServerResponse P res tok n s = (r, s3)"
    by (cases "handleServerResponse P res tok n s")
  obtain post where "trace s3 = trace s @ post" "list_all quiet post"
    using handle_trace [of P res tok n s] h by auto
  then show ?thesis
    by (simp add: sendOne_responded_def Returned h)
next
  case (Threw e)
  then show ?thesis by (simp add: sendOne_responded_def)
qed







section \<open>Properties of the batch sends\<close>

lemma handle_fst_indep:
  "fst (handleServerResponse P res tok n s) = fst (handleServerResponse P res tok n s')"
  by (simp add: handleServerResponse_def split: option.splits)

lemma responded_fst_indep:
  "fst (sendOne_responded P strm c tok n s) = fst (sendOne_responded P strm c tok n s')"
proof (cases "request_settle c strm")
  case (Returned res)
  then show ?thesis
    using handle_fst_indep [of P res tok n s s']
    by (simp add: sendOne_responded_def split_beta)
next
  case (Threw e)
  then show ?thesis by (simp add: sendOne_responded_def)
qed

lemma acquired_fst_indep:
  "path opts = path opts' \<Longrightarrow>
   fst (sendOne_acquired P acq opts tok n s) = fst (sendOne_acquired P acq opts' tok n s')"
  by (auto simp: sendOne_acquired_def post_issue_def request_issue_def
      split: sum.splits option.splits)

lemma resume_fst_indep:
  "fst (resume P acq strm t s) = fst (resume P acq strm t s')"
proof (cases t)
  case (AwaitAcquire opts tok n)
  then show ?thesis using acquired_fst_indep [OF refl] by simp
next
  case (AwaitResponse c tok n)
  then show ?thesis using responded_fst_indep by simp
next
  case (Settled r)
  then show ?thesis by simp
qed

lemma acquired_shape:
  "(\<exists>r. fst (sendOne_acquired P acq opts tok n s) = Settled r)
   \<or> (\<exists>c. fst (sendOne_acquired P acq opts tok n s) = AwaitResponse c tok n)"
  by (auto simp: sendOne_acquired_def split: sum.splits)

lemma responded_shape:
  "\<exists>r. fst (sendOne_responded P strm c tok n s) = Settled r"
  using responded_trace [of P strm c tok n s] by auto

lemma two_resumes_settle:
  "\<exists>r. fst (resume P acq strm (fst (resume P acq strm (AwaitAcquire opts tok n) s1)) s2)
         = Settled r"
  using acquired_shape [of P acq opts tok n s1]
proof (elim disjE exE)
  fix r
  assume "fst (sendOne_acquired P acq opts tok n s1) = Settled r"
  then show ?thesis by simp
next
  fix c
  assume "fst (sendOne_acquired P acq opts tok n s1) = AwaitResponse c tok n"
  then show ?thesis using responded_shape [of P strm c tok n s2] by simp
qed

lemma funpow_settled:
  "((\<lambda>t. fst (resume P acq strm t s0)) ^^ k) (Settled r) = Settled r"
  by (induction k) simp_all

lemma sendOne_fst:
  assumes "path opts = ''/'' @ API_VERSION @ ''/device/'' @ encodeURIComponent tok"
  shows "Some (fst (sendOne P acq strm tok n s')) =
         Some (settled (fst (resume P acq strm
                  (fst (resume P acq strm (AwaitAcquire opts tok n) s0)) s0)))"
proof -
  obtain opts' s1 pre where st: "sendOne_start P tok n s' = (AwaitAcquire opts' tok n, s1)"
    and pth: "path opts' = ''/'' @ API_VERSION @ ''/device/'' @ encodeURIComponent tok"
    using start_trace by blast
  obtain t2 s2 where r1: "sendOne_acquired P acq opts' tok n s1 = (t2, s2)"
    by (cases "sendOne_acquired P acq opts' tok n s1")
  obtain t3 s3 where r2: "resume P acq strm t2 s2 = (t3, s3)"
    by (cases "resume P acq strm t2 s2")
  have a: "t2 = fst (resume P acq strm (AwaitAcquire opts tok n) s0)"
    using r1 acquired_fst_indep [of opts' opts P acq tok n s1 s0] pth assms by simp
  have b: "t3 = fst (resume P acq strm t2 s0)"
    using r2 resume_fst_indep [of P acq strm t2 s2 s0] by simp
  have "fst (sendOne P acq strm tok n s') = settled t3"
    by (simp add: sendOne_def st r1 r2)
  then show ?thesis
    using a b by simp
qed

lemma funpow_two_or_more:
  assumes "2 \<le> k"
  shows "((\<lambda>t. fst (resume P acq strm t s0)) ^^ k) (AwaitAcquire opts tok n)
         = fst (resume P acq strm (fst (resume P acq strm (AwaitAcquire opts tok n) s0)) s0)"
proof -
  let ?F = "\<lambda>t. fst (resume P acq strm t s0)"
  obtain m where k: "k = m + 2" using assms by (metis add.commute le_Suc_ex)
  obtain r where r: "?F (?F (AwaitAcquire opts tok n)) = Settled r"
    using two_resumes_settle by blast
  have "(?F ^^ k) (AwaitAcquire opts tok n) = (?F ^^ m) ((?F ^^ 2) (AwaitAcquire opts tok n))"
    unfolding k by (simp only: funpow_add o_apply)
  also have "(?F ^^ 2) (AwaitAcquire opts tok n) = Settled r"
    using r by (simp add: numeral_2_eq_2)
  also have "(?F ^^ m) (Settled r) = Settled r" by (rule funpow_settled)
  finally show ?thesis using r by simp
qed

lemma run_schedule_length:
  "length (fst (run_schedule P W sched ts s)) = length ts"
  by (induction sched arbitrary: ts s) (auto simp: split_beta)

lemma run_schedule_nth:
  "i < length ts \<Longrightarrow>
   fst (run_schedule P W sched ts s) ! i
     = ((\<lambda>t. fst (resume P (acquired W i) (answered W i) t s0)) ^^ count_list sched i) (ts ! i)"
proof (induction sched arbitrary: ts s)
  case Nil
  then show ?case by simp
next
  case (Cons j sched)
  let ?F = "\<lambda>t. fst (resume P (acquired W i) (answered W i) t s0)"
  show ?case
  proof (cases "j < length ts")
    case False
    then have "j \<noteq> i" using Cons.prems by auto
    then show ?thesis using False Cons.IH [OF Cons.prems] by simp
  next
    case True
    obtain t s1 where r: "resume P (acquired W j) (answered W j) (ts ! j) s = (t, s1)"
      by (cases "resume P (acquired W j) (answered W j) (ts ! j) s")
    have len: "i < length (ts[j := t])" using Cons.prems by simp
    have run: "fst (run_schedule P W (j # sched) ts s) ! i
                 = (?F ^^ count_list sched i) (ts[j := t] ! i)"
      using True r Cons.IH [OF len] by simp
    show ?thesis
    proof (cases "j = i")
      case False
      then show ?thesis using run Cons.prems by simp
    next
      case ji: True
      have t: "t = ?F (ts ! i)"
        using r ji resume_fst_indep [of P "acquired W i" "answered W i" "ts ! i" s s0] by simp
      have "(?F ^^ Suc (count_list sched i)) (ts ! i) = ?F ((?F ^^ count_list sched i) (ts ! i))"
        by simp
      also have "\<dots> = (?F ^^ count_list sched i) (?F (ts ! i))"
        by (rule funpow_swap1)
      finally have "(?F ^^ count_list sched i) (ts[j := t] ! i)
                   = (?F ^^ Suc (count_list sched i)) (ts ! i)"
        using ji Cons.prems t by simp
      then show ?thesis using run ji by simp
    qed
  qed
qed

lemma start_all_length: "length (fst (start_all P ms s)) = length ms"
  by (induction ms arbitrary: s) (auto simp: split_beta)

lemma start_all_nth:
  "i < length ms \<Longrightarrow>
   \<exists>opts. fst (start_all P ms s) ! i = AwaitAcquire opts (fst (ms ! i)) (snd (ms ! i))
     \<and> path opts = ''/'' @ API_VERSION @ ''/device/'' @ encodeURIComponent (fst (ms ! i))"
proof (induction ms arbitrary: s i)
  case Nil
  then show ?case by simp
next
  case (Cons m ms)
  obtain tok n where m: "m = (tok, n)" by (cases m)
  obtain opts s1 pre where st: "sendOne_start P tok n s = (AwaitAcquire opts tok n, s1)"
    and pth: "path opts = ''/'' @ API_VERSION @ ''/device/'' @ encodeURIComponent tok"
    using start_trace by blast
  show ?case
  proof (cases i)
    case 0
    then show ?thesis using st pth m by (simp add: split_beta)
  next
    case (Suc k)
    then have "k < length ms" using Cons.prems by simp
    from Cons.IH [OF this, of s1] show ?thesis
      using Suc st m by (simp add: split_beta)
  qed
qed


lemma member_promise_not_rejected: "member_promise t \<noteq> Some (Threw e)"
  by (cases t; simp) (metis completion.distinct(1) wrapped.elims)

lemma first_rejection_none:
  "(\<And>p e. p \<in> set ps \<Longrightarrow> p \<noteq> Some (Threw e)) \<Longrightarrow> first_rejection ps = None"
proof (induction ps)
  case Nil
  then show ?case by simp
next
  case (Cons p ps)
  have rest: "first_rejection ps = None" using Cons by simp
  show ?case
  proof (cases p)
    case None
    then show ?thesis using rest by simp
  next
    case (Some c)
    then show ?thesis using rest Cons.prems [of p] by (cases c) simp_all
  qed
qed

lemma members_not_rejected: "first_rejection (map member_promise ts) = None"
  by (rule first_rejection_none) (auto simp: member_promise_not_rejected)

lemma fulfilled_settled:
  "(\<And>i. i < length ts \<Longrightarrow> ts ! i = Settled (rs ! i)) \<Longrightarrow> length rs = length ts \<Longrightarrow>
   fulfilled_values (map member_promise ts) = Some (map record_of rs)"
proof (induction ts arbitrary: rs)
  case Nil
  then show ?case by simp
next
  case (Cons t ts)
  then obtain r rs' where rs: "rs = r # rs'" by (cases rs) auto
  have t: "t = Settled r" using Cons.prems(1) [of 0] rs by simp
  have "\<And>i. i < length ts \<Longrightarrow> ts ! i = Settled (rs' ! i)"
    using Cons.prems(1) rs by fastforce
  then have "fulfilled_values (map member_promise ts) = Some (map record_of rs')"
    using Cons.IH [of rs'] Cons.prems(2) rs by simp
  then show ?case using t rs by (cases r) simp_all
qed

lemma batch_never_rejected: "fst (send_batch P W sched ms s) \<noteq> Some (Threw e)"
  by (simp add: send_batch_def split_beta Promise_all_def members_not_rejected
      split: option.splits)

lemma sendOne_settles: "\<exists>r. fst (sendOne P acq strm tok n s) = Some r"
proof -
  obtain opts s1 pre where st: "sendOne_start P tok n s = (AwaitAcquire opts tok n, s1)"
    and pth: "path opts = ''/'' @ API_VERSION @ ''/device/'' @ encodeURIComponent tok"
    using start_trace by blast
  obtain r where "fst (resume P acq strm (fst (resume P acq strm (AwaitAcquire opts tok n) s))
                    s) = Settled r"
    using two_resumes_settle by blast
  then show ?thesis using sendOne_fst [OF pth, of P acq strm n s s] by simp
qed

lemma sendOne_returns_delivered:
  "fst (sendOne P acq strm tok n s) = Some (Returned r) \<Longrightarrow> r = Delivered n tok"
  by (auto simp: sendOne_def sendOne_start_def sendOne_acquired_def sendOne_responded_def
      handleServerResponse_def split_beta
      split: sum.splits completion.splits option.splits if_splits)

lemma batch_complete:
  assumes "complete_schedule sched (length ms)"
  shows "\<exists>rs. fst (send_batch P W sched ms s) = Some (Returned rs) \<and> length rs = length ms
           \<and> (\<forall>i<length ms. \<forall>s'. \<exists>r.
                 fst (sendOne P (acquired W i) (answered W i) (fst (ms ! i)) (snd (ms ! i)) s')
                   = Some r
                 \<and> rs ! i = record_of r)"
proof -
  let ?init = "fst (start_all P ms s)"
  let ?mid = "snd (start_all P ms s)"
  let ?fin = "fst (run_schedule P W sched ?init ?mid)"
  let ?F = "\<lambda>i t. fst (resume P (acquired W i) (answered W i) t s)"
  have len: "length ?fin = length ms"
    by (simp add: run_schedule_length start_all_length)
  have each: "\<exists>r. ?fin ! i = Settled r
                \<and> (\<forall>s'. fst (sendOne P (acquired W i) (answered W i) (fst (ms ! i))
                            (snd (ms ! i)) s') = Some r)"
    if i: "i < length ms" for i
  proof -
    obtain opts where o: "?init ! i = AwaitAcquire opts (fst (ms ! i)) (snd (ms ! i))"
      and pth: "path opts = ''/'' @ API_VERSION @ ''/device/'' @ encodeURIComponent (fst (ms ! i))"
      using start_all_nth [OF i] by blast
    have two: "2 \<le> count_list sched i"
      using assms i by (simp add: complete_schedule_def list_all_iff)
    have "?fin ! i = (?F i ^^ count_list sched i) (?init ! i)"
      using i by (simp add: run_schedule_nth [where ?s0.0 = s] start_all_length)
    then have ti: "?fin ! i = ?F i (?F i (AwaitAcquire opts (fst (ms ! i)) (snd (ms ! i))))"
      using funpow_two_or_more [OF two] o by simp
    obtain r where r: "?F i (?F i (AwaitAcquire opts (fst (ms ! i)) (snd (ms ! i)))) = Settled r"
      using two_resumes_settle by blast
    have "fst (sendOne P (acquired W i) (answered W i) (fst (ms ! i)) (snd (ms ! i)) s') = Some r"
      for s'
      using sendOne_fst [OF pth, of P "acquired W i" "answered W i" "snd (ms ! i)" s' s] r
      by simp
    then show ?thesis using ti r by simp
  qed
  define rs where "rs = map (\<lambda>t. case t of Settled r \<Rightarrow> r | _ \<Rightarrow> Threw JUndefined) ?fin"
  have rs_len: "length rs = length ?fin" by (simp add: rs_def)
  have rs_nth: "?fin ! i = Settled (rs ! i)" if "i < length ?fin" for i
    using each [of i] that len by (auto simp: rs_def)
  have ful: "fulfilled_values (map member_promise ?fin) = Some (map record_of rs)"
    using fulfilled_settled [of ?fin rs] rs_nth rs_len by simp
  have res: "fst (send_batch P W sched ms s) = Some (Returned (map record_of rs))"
    by (simp add: send_batch_def split_beta Promise_all_def members_not_rejected ful)
  have "\<exists>r. fst (sendOne P (acquired W i) (answered W i) (fst (ms ! i)) (snd (ms ! i)) s')
               = Some r \<and> map record_of rs ! i = record_of r"
    if i: "i < length ms" for i s'
  proof -
    obtain r where "?fin ! i = Settled r"
      and "\<forall>s'. fst (sendOne P (acquired W i) (answered W i) (fst (ms ! i)) (snd (ms ! i)) s')
                  = Some r"
      using each [OF i] by blast
    then show ?thesis using rs_nth [of i] i len rs_len by simp
  qed
  then show ?thesis using res rs_len len by auto
qed

text \<open>
  C3. \<open>sendMany\<close> and \<open>sendToMany\<close> never reject, whatever the order in which the pool
  and the gateway answer the members. Once every member has been answered, the batch
  resolves with a list as long as the input, and position \<open>i\<close> holds the record of
  member \<open>i\<close>'s own send: the success record with that member's notification and device
  identifier, or \<open>{ error }\<close> around what that send threw. The record is the one the
  single send gives from the answers to member \<open>i\<close> alone, in any state of the client:
  what happens to the other members has no part in it.
\<close>

theorem batch_sends_never_reject:
  "(\<forall>e. fst (sendMany P W sched ns s) \<noteq> Some (Threw e))
   \<and> (\<forall>e. fst (sendToMany P W sched ds n s) \<noteq> Some (Threw e))
   \<and> (complete_schedule sched (length ns) \<longrightarrow>
        (\<exists>rs. fst (sendMany P W sched ns s) = Some (Returned rs) \<and> length rs = length ns
           \<and> (\<forall>i<length ns. \<forall>s'. \<exists>r.
                 fst (sendOne P (acquired W i) (answered W i) (deviceToken (ns ! i)) (ns ! i) s')
                   = Some r
                 \<and> rs ! i = record_of r
                 \<and> (rs ! i = Delivered (ns ! i) (deviceToken (ns ! i))
                      \<or> (\<exists>e. r = Threw e \<and> rs ! i = ErrorResult e)))))
   \<and> (complete_schedule sched (length ds) \<longrightarrow>
        (\<exists>rs. fst (sendToMany P W sched ds n s) = Some (Returned rs) \<and> length rs = length ds
           \<and> (\<forall>i<length ds. \<forall>s'. \<exists>r.
                 fst (sendOne P (acquired W i) (answered W i) (ds ! i) n s') = Some r
                 \<and> rs ! i = record_of r
                 \<and> (rs ! i = Delivered n (ds ! i)
                      \<or> (\<exists>e. r = Threw e \<and> rs ! i = ErrorResult e)))))"
proof (intro conjI allI impI)
  fix e
  show "fst (sendMany P W sched ns s) \<noteq> Some (Threw e)"
    unfolding sendMany_def by (rule batch_never_rejected)
  show "fst (sendToMany P W sched ds n s) \<noteq> Some (Threw e)"
    unfolding sendToMany_def by (rule batch_never_rejected)
next
  assume "complete_schedule sched (length ns)"
  then have c: "complete_schedule sched (length (map (\<lambda>n. (deviceToken n, n)) ns))" by simp
  from batch_complete [OF c, of P W s]
  obtain rs where rs: "fst (sendMany P W sched ns s) = Some (Returned rs)" "length rs = length ns"
    and each: "\<And>i s'. i < length ns \<Longrightarrow> \<exists>r.
                 fst (sendOne P (acquired W i) (answered W i) (deviceToken (ns ! i)) (ns ! i) s')
                   = Some r \<and> rs ! i = record_of r"
    unfolding sendMany_def by auto
  have "\<exists>r. fst (sendOne P (acquired W i) (answered W i) (deviceToken (ns ! i)) (ns ! i) s')
               = Some r
             \<and> rs ! i = record_of r
             \<and> (rs ! i = Delivered (ns ! i) (deviceToken (ns ! i))
                  \<or> (\<exists>e. r = Threw e \<and> rs ! i = ErrorResult e))"
    if i: "i < length ns" for i s'
  proof -
    obtain r where r: "fst (sendOne P (acquired W i) (answered W i) (deviceToken (ns ! i))
                          (ns ! i) s') = Some r" "rs ! i = record_of r"
      using each [OF i, of s'] by blast
    show ?thesis
    proof (cases r)
      case (Returned x)
      then show ?thesis using r sendOne_returns_delivered [of P _ _ _ _ s' x] by auto
    next
      case (Threw e)
      then show ?thesis using r by simp
    qed
  qed
  then show "\<exists>rs. fst (sendMany P W sched ns s) = Some (Returned rs) \<and> length rs = length ns
           \<and> (\<forall>i<length ns. \<forall>s'. \<exists>r.
                 fst (sendOne P (acquired W i) (answered W i) (deviceToken (ns ! i)) (ns ! i) s')
                   = Some r
                 \<and> rs ! i = record_of r
                 \<and> (rs ! i = Delivered (ns ! i) (deviceToken (ns ! i))
                      \<or> (\<exists>e. r = Threw e \<and> rs ! i = ErrorResult e)))"
    using rs by blast
next
  assume "complete_schedule sched (length ds)"
  then have c: "complete_schedule sched (length (map (\<lambda>device. (device, n)) ds))" by simp
  from batch_complete [OF c, of P W s]
  obtain rs where rs: "fst (sendToMany P W sched ds n s) = Some (Returned rs)"
      "length rs = length ds"
    and each: "\<And>i s'. i < length ds \<Longrightarrow> \<exists>r.
                 fst (sendOne P (acquired W i) (answered W i) (ds ! i) n s') = Some r
                 \<and> rs ! i = record_of r"
    unfolding sendToMany_def by auto
  have "\<exists>r. fst (sendOne P (acquired W i) (answered W i) (ds ! i) n s') = Some r
             \<and> rs ! i = record_of r
             \<and> (rs ! i = Delivered n (ds ! i) \<or> (\<exists>e. r = Threw e \<and> rs ! i = ErrorResult e))"
    if i: "i < length ds" for i s'
  proof -
    obtain r where r: "fst (sendOne P (acquired W i) (answered W i) (ds ! i) n s') = Some r"
      "rs ! i = record_of r"
      using each [OF i, of s'] by blast
    show ?thesis
    proof (cases r)
      case (Returned x)
      then show ?thesis using r sendOne_returns_delivered [of P _ _ _ _ s' x] by auto
    next
      case (Threw e)
      then show ?thesis using r by simp
    qed
  qed
  then show "\<exists>rs. fst (sendToMany P W sched ds n s) = Some (Returned rs) \<and> length rs = length ds
           \<and> (\<forall>i<length ds. \<forall>s'. \<exists>r.
                 fst (sendOne P (acquired W i) (answered W i) (ds ! i) n s') = Some r
                 \<and> rs ! i = record_of r
                 \<and> (rs ! i = Delivered n (ds ! i)
                      \<or> (\<exists>e. r = Threw e \<and> rs ! i = ErrorResult e)))"
    using rs by blast
qed

lemma example_batch:
  "fst (sendMany P_ok answers0 [1, 0, 0, 1] [note0, note1] apns0)
     = Some (Returned
         [Delivered note0 ''abc123'',
          ErrorResult (JObj Plain [(''reason'', JStr ''Unregistered''),
                                   (''statusCode'', JNum 410),
                                   (''notification'', JObj (NotificationObj note1) [])])])"
  by code_simp

lemma example_schedule: "complete_schedule [1, 0, 0, 1] (length [note0, note1])"
  by code_simp

theorem batch_sends_never_reject_witness:
  "complete_schedule [1, 0, 0, 1] (length [note0, note1])
   \<and> (\<exists>rs. fst (sendMany P_ok answers0 [1, 0, 0, 1] [note0, note1] apns0) = Some (Returned rs)
         \<and> length rs = 2
         \<and> rs ! 0 = Delivered note0 ''abc123''
         \<and> rs ! 1 = ErrorResult (JObj Plain [(''reason'', JStr ''Unregistered''),
                                              (''statusCode'', JNum 410),
                                              (''notification'', JObj (NotificationObj note1) [])]))
   \<and> (\<forall>e. fst (sendMany P_ok answers0 [1, 0, 0, 1] [note0, note1] apns0) \<noteq> Some (Threw e))"
proof -
  note T = batch_sends_never_reject [of P_ok answers0 "[1, 0, 0, 1]" "[note0, note1]" apns0]
  from T [THEN conjunct2, THEN conjunct2, THEN conjunct1, THEN mp, OF example_schedule]
  obtain rs where rs: "fst (sendMany P_ok answers0 [1, 0, 0, 1] [note0, note1] apns0)
                         = Some (Returned rs)" "length rs = length [note0, note1]"
    by blast
  from rs(1) example_batch
  have eq: "rs = [Delivered note0 ''abc123'',
                  ErrorResult (JObj Plain [(''reason'', JStr ''Unregistered''),
                                           (''statusCode'', JNum 410),
                                           (''notification'', JObj (NotificationObj note1) [])])]"
    by simp
  have "rs ! 0 = Delivered note0 ''abc123''"
    "rs ! 1 = ErrorResult (JObj Plain [(''reason'', JStr ''Unregistered''),
                                       (''statusCode'', JNum 410),
                                       (''notification'', JObj (NotificationObj note1) [])])"
    "length rs = 2"
    unfolding eq by simp_all
  with rs(1) T [THEN conjunct1] example_schedule show ?thesis by blast
qed

end
